theory Spec2Isabelle
  imports Complex_Main "HOL-Library.AList" "HOL-Library.Multiset"
    "HOL-Library.Char_ord" "HOL-Library.List_Lexorder"
begin

section \<open>Python values and dictionaries\<close>

text \<open>
  The preprocessing module (\<^verbatim>\<open>backend/service/preprocess_image.py\<close>) passes its
  recommendations and its options around as Python dictionaries whose values are
  \<^verbatim>\<open>None\<close>, booleans, integers, floats, strings or nested dictionaries.  A dictionary
  is an association list in insertion order; floats are idealised as reals.
\<close>

datatype pyval =
    PNone
  | PBool bool
  | PInt int
  | PFloat real
  | PStr string
  | PDict "(string \<times> pyval) list"

type_synonym pydict = "(string \<times> pyval) list"

datatype error = DecodeError | TypeError | ValueError | LibraryError

text \<open>\<^verbatim>\<open>bool(v)\<close>: what \<^verbatim>\<open>if v:\<close> and \<^verbatim>\<open>v or 0\<close> test.\<close>

fun truthy :: "pyval \<Rightarrow> bool" where
  "truthy PNone = False"
| "truthy (PBool b) = b"
| "truthy (PInt n) = (n \<noteq> 0)"
| "truthy (PFloat r) = (r \<noteq> 0)"
| "truthy (PStr s) = (s \<noteq> [])"
| "truthy (PDict d) = (d \<noteq> [])"

text \<open>\<^verbatim>\<open>isinstance(v, dict)\<close>.\<close>

fun is_dict :: "pyval \<Rightarrow> bool" where
  "is_dict (PDict d) = True"
| "is_dict v = False"

text \<open>\<^verbatim>\<open>d.get(k, default)\<close>, \<^verbatim>\<open>d[k] = v\<close> (an existing key keeps its place, a new
  one goes last) and \<^verbatim>\<open>d.update(e)\<close> (the items of \<^verbatim>\<open>e\<close> in their order).\<close>

definition dict_get :: "pydict \<Rightarrow> string \<Rightarrow> pyval \<Rightarrow> pyval" where
  "dict_get d k dflt = (case map_of d k of Some v \<Rightarrow> v | None \<Rightarrow> dflt)"

definition dict_set :: "string \<Rightarrow> pyval \<Rightarrow> pydict \<Rightarrow> pydict" where
  "dict_set k v d = AList.update k v d"

definition dict_update :: "pydict \<Rightarrow> pydict \<Rightarrow> pydict" where
  "dict_update d e = fold (\<lambda>kv. dict_set (fst kv) (snd kv)) e d"

text \<open>A number as Python's arithmetic and comparisons read it (\<^verbatim>\<open>bool\<close> is a subclass of
  \<^verbatim>\<open>int\<close>); \<open>None\<close> where the operation raises \<^verbatim>\<open>TypeError\<close>.\<close>

fun py_real :: "pyval \<Rightarrow> real option" where
  "py_real (PBool b) = Some (if b then 1 else 0)"
| "py_real (PInt n) = Some (of_int n)"
| "py_real (PFloat r) = Some r"
| "py_real v = None"

text \<open>\<^verbatim>\<open>int(s)\<close> for a string: surrounding white space is stripped, then an optional sign
  and decimal digits, single underscores allowed between digits.\<close>

definition is_space :: "char \<Rightarrow> bool" where
  "is_space c = (c \<in> set [CHR '' '', CHR 0x09, CHR 0x0A, CHR 0x0B, CHR 0x0C, CHR 0x0D,
                           CHR 0x1C, CHR 0x1D, CHR 0x1E, CHR 0x1F])"

definition digit_val :: "char \<Rightarrow> nat option" where
  "digit_val c = map_of (zip ''0123456789'' [0 ..< 10]) c"

fun digits_val :: "nat \<Rightarrow> string \<Rightarrow> nat option" where
  "digits_val acc [] = Some acc"
| "digits_val acc [c] =
     (case digit_val c of None \<Rightarrow> None | Some d \<Rightarrow> Some (10 * acc + d))"
| "digits_val acc (c # c' # cs) =
     (case digit_val c of
        None \<Rightarrow> None
      | Some d \<Rightarrow>
          if c' = CHR ''_'' then (if cs = [] then None else digits_val (10 * acc + d) cs)
          else digits_val (10 * acc + d) (c' # cs))"

definition strip :: "string \<Rightarrow> string" where
  "strip s = rev (dropWhile is_space (rev (dropWhile is_space s)))"

definition int_of_str :: "string \<Rightarrow> int option" where
  "int_of_str s =
     (case strip s of
        [] \<Rightarrow> None
      | c # cs \<Rightarrow>
          if c = CHR ''-'' then (if cs = [] then None else map_option (\<lambda>n. - int n) (digits_val 0 cs))
          else if c = CHR ''+'' then (if cs = [] then None else map_option int (digits_val 0 cs))
          else map_option int (digits_val 0 (c # cs)))"

text \<open>\<^verbatim>\<open>int(v)\<close>: a float is truncated towards zero, a string is parsed
  (\<^verbatim>\<open>ValueError\<close> otherwise), \<^verbatim>\<open>None\<close> and a dictionary raise \<^verbatim>\<open>TypeError\<close>.\<close>

fun py_int :: "pyval \<Rightarrow> error + int" where
  "py_int (PBool b) = Inr (if b then 1 else 0)"
| "py_int (PInt n) = Inr n"
| "py_int (PFloat r) = Inr (if 0 \<le> r then \<lfloor>r\<rfloor> else \<lceil>r\<rceil>)"
| "py_int (PStr s) = (case int_of_str s of Some n \<Rightarrow> Inr n | None \<Rightarrow> Inl ValueError)"
| "py_int PNone = Inl TypeError"
| "py_int (PDict d) = Inl TypeError"

section \<open>Levels of the quality analysis\<close>

datatype level = Low | Medium | High

datatype brightness = VeryDark | Dark | Normal | Bright | Overexposed

datatype blur = Sharp | Moderate | Blurry

datatype doc_type = TextHeavy | MixedContent | SimpleText

section \<open>Skew detection\<close>

text \<open>
  \<^verbatim>\<open>DocumentAnalyzer._detect_skew\<close> pools the angles of two estimators.  What OpenCV
  hands back is the input here: the Hough segments (\<open>None\<close> when \<^verbatim>\<open>HoughLinesP\<close>
  returned \<^verbatim>\<open>None\<close> or the block raised), and for every external contour its area and
  its minimum-area rectangle (\<open>None\<close> when the block raised).  A segment carries, as
  \<open>direction\<close>, the float that \<^verbatim>\<open>math.atan2(y2 - y1, x2 - x1) * 180.0 / np.pi\<close> yields
  for it.
\<close>

record segment =
  x1 :: int
  y1 :: int
  x2 :: int
  y2 :: int
  direction :: real

record contour =
  area :: real
  rect_angle :: real
  rect_w :: real
  rect_h :: real

record skew_input =
  hough_lines :: "segment list option"
  contours :: "contour list option"

record skew_result =
  angle :: real
  skew_level :: level
  confidence :: real

definition in_range :: "real \<Rightarrow> bool" where
  "in_range a = (- 45 \<le> a \<and> a \<le> 45)"

fun hough_angles :: "segment list \<Rightarrow> real list" where
  "hough_angles [] = []"
| "hough_angles (l # ls) =
     (if x2 l - x1 l \<noteq> 0
      then (let a = direction l
            in if in_range a then a # hough_angles ls else hough_angles ls)
      else hough_angles ls)"

fun rect_angles :: "contour list \<Rightarrow> real list" where
  "rect_angles [] = []"
| "rect_angles (c # cs) =
     (if area c > 1000
      then (let a = (if rect_w c < rect_h c then rect_angle c + 90 else rect_angle c)
            in if in_range a then a # rect_angles cs else rect_angles cs)
      else rect_angles cs)"

definition candidate_angles :: "skew_input \<Rightarrow> real list" where
  "candidate_angles i =
     (case hough_lines i of None \<Rightarrow> [] | Some ls \<Rightarrow> hough_angles ls) @
     (case contours i of None \<Rightarrow> [] | Some cs \<Rightarrow> rect_angles cs)"

text \<open>\<^verbatim>\<open>np.median\<close> of a non-empty list: the middle element of the sorted list, or the
  mean of the two middle ones.\<close>

definition median :: "real list \<Rightarrow> real" where
  "median xs =
     (let s = sort xs; n = length s
      in if odd n then s ! (n div 2) else (s ! (n div 2 - 1) + s ! (n div 2)) / 2)"

definition level_of_angle :: "real \<Rightarrow> level" where
  "level_of_angle a = (if \<bar>a\<bar> > 5 then High else if \<bar>a\<bar> > 1 then Medium else Low)"

definition detect_skew :: "skew_input \<Rightarrow> skew_result" where
  "detect_skew i =
     (let angles = candidate_angles i;
          skew_angle = (if angles \<noteq> [] then median angles else 0)
      in \<lparr> angle = skew_angle,
           skew_level = level_of_angle skew_angle,
           confidence = (if angles \<noteq> [] then real (length angles) / 10 else 0) \<rparr>)"

text \<open>The confidence as the specification words it.\<close>

definition spec_confidence :: "nat \<Rightarrow> real" where
  "spec_confidence candidate_count = min 1 (real candidate_count / 10)"

section \<open>Measurements and classification\<close>

text \<open>
  The numbers that NumPy and OpenCV compute from the grayscale image and that the
  analyzer's thresholds read.  \<open>laplacian_var\<close> is \<^verbatim>\<open>cv2.Laplacian(gray, CV_64F).var()\<close>
  (read by the noise and by the blur assessment), \<open>doc_contours\<close> lists area, width and
  height of the bounding box of every contour of the closed edge image.
\<close>

record measurements =
  laplacian_var :: real
  noise_variance :: real
  rms_contrast :: real
  max_val :: real
  min_val :: real
  mean_brightness :: real
  dark_pixels :: real
  bright_pixels :: real
  skew_in :: skew_input
  edge_density :: real
  doc_contours :: "(real \<times> int \<times> int) list"
  density_ratio :: real

definition assess_noise_level :: "measurements \<Rightarrow> level" where
  "assess_noise_level m =
     (if laplacian_var m > 1000 \<and> noise_variance m > 50 then High
      else if laplacian_var m > 500 \<and> noise_variance m > 20 then Medium
      else Low)"

definition michelson_contrast :: "measurements \<Rightarrow> real" where
  "michelson_contrast m =
     (if max_val m + min_val m > 0 then (max_val m - min_val m) / (max_val m + min_val m) else 0)"

definition assess_contrast :: "measurements \<Rightarrow> level" where
  "assess_contrast m =
     (if rms_contrast m > 60 \<and> michelson_contrast m > 7 / 10 then High
      else if rms_contrast m > 30 \<and> michelson_contrast m > 4 / 10 then Medium
      else Low)"

definition assess_brightness :: "measurements \<Rightarrow> brightness" where
  "assess_brightness m =
     (if mean_brightness m < 80 then (if dark_pixels m > 3 / 10 then VeryDark else Dark)
      else if mean_brightness m > 180 then (if bright_pixels m > 3 / 10 then Overexposed else Bright)
      else Normal)"

fun text_like_contours :: "(real \<times> int \<times> int) list \<Rightarrow> nat" where
  "text_like_contours [] = 0"
| "text_like_contours ((a, w, h) # cs) =
     (if 10 < a \<and> a < 5000
      then (let aspect_ratio = (if h > 0 then real_of_int w / real_of_int h else 0)
            in if 1 / 10 < aspect_ratio \<and> aspect_ratio < 10
               then text_like_contours cs + 1 else text_like_contours cs)
      else text_like_contours cs)"

definition classify_document_type :: "measurements \<Rightarrow> doc_type" where
  "classify_document_type m =
     (if edge_density m > 5 / 100 \<and> text_like_contours (doc_contours m) > 50 then TextHeavy
      else if edge_density m > 1 / 10 then MixedContent
      else SimpleText)"

definition assess_blur :: "measurements \<Rightarrow> blur" where
  "assess_blur m =
     (if laplacian_var m > 800 then Sharp
      else if laplacian_var m > 200 then Moderate
      else Blurry)"

definition assess_text_density :: "measurements \<Rightarrow> level" where
  "assess_text_density m =
     (if density_ratio m > 3 / 10 then High
      else if density_ratio m > 1 / 10 then Medium
      else Low)"

section \<open>Quality score and recommendations\<close>

text \<open>
  The analysis dictionary, first with the entries \<^verbatim>\<open>analyze_document_quality\<close> measures,
  then extended by \<^verbatim>\<open>quality_score\<close> and \<^verbatim>\<open>recommendations\<close>.  Of every sub-dictionary
  the record keeps what later code reads: its level (and the whole skew result); the
  levels are the strings the assessments above can return.
\<close>

record measured =
  noise_level :: level
  contrast_quality :: level
  brightness_level :: brightness
  skew_angle :: skew_result
  document_type :: doc_type
  blur_level :: blur
  text_density :: level

record analysis = measured +
  quality_score :: int
  recommendations :: pydict

text \<open>Each bonus is a dictionary lookup on the level with default 0; every level has
  its entry, so the default is never taken.\<close>

definition calculate_quality_score :: "'a measured_scheme \<Rightarrow> int" where
  "calculate_quality_score a =
     (let score = 50;
          score = score + (case contrast_quality a of High \<Rightarrow> 25 | Medium \<Rightarrow> 15 | Low \<Rightarrow> 0);
          score = score + (case brightness_level a of
                             Normal \<Rightarrow> 20 | Bright \<Rightarrow> 15 | Dark \<Rightarrow> 10 | VeryDark \<Rightarrow> 0 | Overexposed \<Rightarrow> 5);
          score = score + (case noise_level a of Low \<Rightarrow> 0 | Medium \<Rightarrow> - 5 | High \<Rightarrow> - 15);
          score = score + (case blur_level a of Sharp \<Rightarrow> 5 | Moderate \<Rightarrow> 0 | Blurry \<Rightarrow> - 10);
          score = score + (case skew_level (skew_angle a) of Low \<Rightarrow> 0 | Medium \<Rightarrow> - 2 | High \<Rightarrow> - 5)
      in max 0 (min 100 score))"

text \<open>The bonus tables as the specification lists them.\<close>

fun contrast_bonus :: "level \<Rightarrow> int" where
  "contrast_bonus High = 25" | "contrast_bonus Medium = 15" | "contrast_bonus Low = 0"

fun brightness_bonus :: "brightness \<Rightarrow> int" where
  "brightness_bonus Normal = 20" | "brightness_bonus Bright = 15" | "brightness_bonus Dark = 10"
| "brightness_bonus VeryDark = 0" | "brightness_bonus Overexposed = 5"

fun noise_penalty :: "level \<Rightarrow> int" where
  "noise_penalty Low = 0" | "noise_penalty Medium = - 5" | "noise_penalty High = - 15"

fun blur_bonus :: "blur \<Rightarrow> int" where
  "blur_bonus Sharp = 5" | "blur_bonus Moderate = 0" | "blur_bonus Blurry = - 10"

fun skew_penalty :: "level \<Rightarrow> int" where
  "skew_penalty Low = 0" | "skew_penalty Medium = - 2" | "skew_penalty High = - 5"

definition default_recommendations :: pydict where
  "default_recommendations =
     [(''deskew'', PDict [(''enabled'', PBool False), (''priority'', PInt 0)]),
      (''denoise'', PDict [(''enabled'', PBool False), (''strength'', PInt 0), (''priority'', PInt 0)]),
      (''contrast'', PDict [(''enabled'', PBool False), (''adjustment'', PInt 0), (''priority'', PInt 0)]),
      (''brightness'', PDict [(''enabled'', PBool False), (''adjustment'', PInt 0), (''priority'', PInt 0)]),
      (''sharpen'', PDict [(''enabled'', PBool False), (''strength'', PInt 0), (''priority'', PInt 0)]),
      (''threshold_method'', PStr ''adaptive'')]"

definition generate_recommendations :: "'a measured_scheme \<Rightarrow> pydict" where
  "generate_recommendations a =
     (let r = default_recommendations;
          r = (if skew_level (skew_angle a) \<in> set [Medium, High]
               then dict_set ''deskew''
                      (PDict [(''enabled'', PBool True),
                              (''priority'', PInt (if skew_level (skew_angle a) = High then 3 else 2)),
                              (''angle_threshold'', PFloat (1 / 2)), (''max_angle'', PInt 10)]) r
               else r);
          r = (if noise_level a \<in> set [Medium, High]
               then (let strength = (if noise_level a = High then 3 else 2)
                     in dict_set ''denoise''
                          (PDict [(''enabled'', PBool True), (''strength'', PInt strength),
                                  (''priority'', PInt (if noise_level a = High then 2 else 1))]) r)
               else r);
          r = (if contrast_quality a = Low
               then dict_set ''contrast''
                      (PDict [(''enabled'', PBool True), (''adjustment'', PInt 30), (''priority'', PInt 2)]) r
               else r);
          r = (if brightness_level a \<in> set [Dark, VeryDark]
               then (let adjustment = (if brightness_level a = VeryDark then 40 else 20)
                     in dict_set ''brightness''
                          (PDict [(''enabled'', PBool True), (''adjustment'', PInt adjustment),
                                  (''priority'', PInt 2)]) r)
               else if brightness_level a = Overexposed
               then dict_set ''brightness''
                      (PDict [(''enabled'', PBool True), (''adjustment'', PInt (- 20)),
                              (''priority'', PInt 1)]) r
               else r);
          r = (if blur_level a = Blurry
               then dict_set ''sharpen''
                      (PDict [(''enabled'', PBool True), (''strength'', PInt 2), (''priority'', PInt 1)]) r
               else r)
      in dict_set ''threshold_method''
           (PStr (if document_type a = TextHeavy then ''adaptive'' else ''otsu'')) r)"

section \<open>The imaging library\<close>

text \<open>
  Pillow, NumPy and OpenCV are not part of the repository: their calls are the fields of
  a record, over any type of images.  A call that transforms, opens or saves an image
  may raise (\<open>None\<close>); the measurements are total.  \<open>is_color\<close> is
  \<^verbatim>\<open>len(img.shape) == 3\<close>.
\<close>

type_synonym bytes = string

record 'img lib =
  image_open :: "bytes \<Rightarrow> 'img option"
  image_mode :: "'img \<Rightarrow> string"
  rgba_on_white :: "'img \<Rightarrow> 'img"
  convert_rgb :: "'img \<Rightarrow> 'img"
  is_color :: "'img \<Rightarrow> bool"
  rgb2gray :: "'img \<Rightarrow> 'img option"
  gray2rgb :: "'img \<Rightarrow> 'img option"
  measure :: "'img \<Rightarrow> measurements"
  rotate :: "'img \<Rightarrow> real \<Rightarrow> 'img option"
  nlmeans_colored :: "'img \<Rightarrow> real \<Rightarrow> int \<Rightarrow> int \<Rightarrow> 'img option"
  nlmeans :: "'img \<Rightarrow> real \<Rightarrow> int \<Rightarrow> int \<Rightarrow> 'img option"
  enhance_contrast :: "'img \<Rightarrow> real \<Rightarrow> 'img option"
  convert_scale_abs :: "'img \<Rightarrow> real \<Rightarrow> 'img option"
  sharpen_filter :: "'img \<Rightarrow> real \<Rightarrow> 'img option"
  save_jpeg :: "'img \<Rightarrow> bytes option"

text \<open>A library call outside every \<^verbatim>\<open>try\<close>: its exception leaves the function.\<close>

definition unguarded :: "'a option \<Rightarrow> error + 'a" where
  "unguarded r = (case r of None \<Rightarrow> Inl LibraryError | Some x \<Rightarrow> Inr x)"

definition and_then :: "error + 'a \<Rightarrow> ('a \<Rightarrow> error + 'b) \<Rightarrow> error + 'b" where
  "and_then r f = (case r of Inl e \<Rightarrow> Inl e | Inr x \<Rightarrow> f x)"

definition analyze_document_quality :: "'img lib \<Rightarrow> 'img \<Rightarrow> error + analysis" where
  "analyze_document_quality L img_array =
     and_then (if is_color L img_array then unguarded (rgb2gray L img_array) else Inr img_array)
       (\<lambda>gray.
          let m = measure L gray;
              a = \<lparr> noise_level = assess_noise_level m,
                    contrast_quality = assess_contrast m,
                    brightness_level = assess_brightness m,
                    skew_angle = detect_skew (skew_in m),
                    document_type = classify_document_type m,
                    blur_level = assess_blur m,
                    text_density = assess_text_density m \<rparr>
          in Inr (measured.extend a
                    \<lparr> quality_score = calculate_quality_score a,
                      recommendations = generate_recommendations a \<rparr>))"

section \<open>Pass 1: the priority-ordered pipeline\<close>

text \<open>Each operator of \<^verbatim>\<open>DynamicPreprocessor\<close> runs inside its own \<^verbatim>\<open>try\<close>: whatever
  raises there is logged and the pair it was given is returned.\<close>

definition apply_deskew :: "'img lib \<Rightarrow> 'img \<Rightarrow> 'img \<Rightarrow> pydict \<Rightarrow> 'img \<times> 'img" where
  "apply_deskew L img gray config =
     (let a = angle (detect_skew (skew_in (measure L gray)))
      in case py_real (dict_get config ''angle_threshold'' (PFloat (1 / 2))) of
           None \<Rightarrow> (img, gray)
         | Some t \<Rightarrow>
             if \<bar>a\<bar> > t
             then (case rotate L img a of
                     None \<Rightarrow> (img, gray)
                   | Some rotated_img \<Rightarrow>
                       (case rotate L gray a of
                          None \<Rightarrow> (img, gray)
                        | Some rotated_gray \<Rightarrow> (rotated_img, rotated_gray)))
             else (img, gray))"

definition apply_denoise :: "'img lib \<Rightarrow> 'img \<Rightarrow> 'img \<Rightarrow> pydict \<Rightarrow> 'img \<times> 'img" where
  "apply_denoise L img gray config =
     (case py_real (dict_get config ''strength'' (PInt 2)) of
        None \<Rightarrow> (img, gray)
      | Some strength \<Rightarrow>
          (case (if is_color L img then nlmeans_colored L img strength 7 21
                 else nlmeans L img strength 7 21) of
             None \<Rightarrow> (img, gray)
           | Some denoised_img \<Rightarrow>
               (case nlmeans L gray strength 7 21 of
                  None \<Rightarrow> (img, gray)
                | Some denoised_gray \<Rightarrow> (denoised_img, denoised_gray))))"

definition apply_contrast :: "'img lib \<Rightarrow> 'img \<Rightarrow> 'img \<Rightarrow> pydict \<Rightarrow> 'img \<times> 'img" where
  "apply_contrast L img gray config =
     (case py_real (dict_get config ''adjustment'' (PInt 0)) of
        None \<Rightarrow> (img, gray)
      | Some adjustment \<Rightarrow>
          (case enhance_contrast L img (1 + adjustment / 100) of
             None \<Rightarrow> (img, gray)
           | Some result_img \<Rightarrow>
               if is_color L result_img
               then (case rgb2gray L result_img of
                       None \<Rightarrow> (img, gray)
                     | Some result_gray \<Rightarrow> (result_img, result_gray))
               else (result_img, result_img)))"

definition apply_brightness :: "'img lib \<Rightarrow> 'img \<Rightarrow> 'img \<Rightarrow> pydict \<Rightarrow> 'img \<times> 'img" where
  "apply_brightness L img gray config =
     (case py_real (dict_get config ''adjustment'' (PInt 0)) of
        None \<Rightarrow> (img, gray)
      | Some adjustment \<Rightarrow>
          (case convert_scale_abs L img adjustment of
             None \<Rightarrow> (img, gray)
           | Some brightened_img \<Rightarrow>
               (case convert_scale_abs L gray adjustment of
                  None \<Rightarrow> (img, gray)
                | Some brightened_gray \<Rightarrow> (brightened_img, brightened_gray))))"

definition apply_sharpen :: "'img lib \<Rightarrow> 'img \<Rightarrow> 'img \<Rightarrow> pydict \<Rightarrow> 'img \<times> 'img" where
  "apply_sharpen L img gray config =
     (case py_real (dict_get config ''strength'' (PInt 1)) of
        None \<Rightarrow> (img, gray)
      | Some strength \<Rightarrow>
          (case sharpen_filter L img strength of
             None \<Rightarrow> (img, gray)
           | Some sharpened_img \<Rightarrow>
               (case sharpen_filter L gray strength of
                  None \<Rightarrow> (img, gray)
                | Some sharpened_gray \<Rightarrow> (sharpened_img, sharpened_gray))))"

text \<open>A step is the triple \<^verbatim>\<open>(priority, step_name, config)\<close> the loop over
  \<^verbatim>\<open>recommendations.items()\<close> appends.\<close>

type_synonym step = "pyval \<times> string \<times> pydict"

fun enabled_steps :: "pydict \<Rightarrow> step list" where
  "enabled_steps [] = []"
| "enabled_steps ((step_name, PDict config) # rs) =
     (if truthy (dict_get config ''enabled'' (PBool False))
      then (dict_get config ''priority'' (PInt 0), step_name, config) # enabled_steps rs
      else enabled_steps rs)"
| "enabled_steps ((step_name, v) # rs) = enabled_steps rs"

text \<open>
  \<^verbatim>\<open>steps.sort(key=lambda x: x[0], reverse=True)\<close>.  Python's sort is stable, also when
  reversed: it sorts the reversed list ascending and reverses the result.  Two keys
  compare when both are numbers or both are strings; a list of two or more steps with
  keys that do not compare raises \<^verbatim>\<open>TypeError\<close>.
\<close>

definition num_key :: "step \<Rightarrow> real" where
  "num_key s = (case py_real (fst s) of Some r \<Rightarrow> r | None \<Rightarrow> 0)"

definition str_key :: "step \<Rightarrow> string" where
  "str_key s = (case fst s of PStr k \<Rightarrow> k | _ \<Rightarrow> [])"

definition is_num :: "pyval \<Rightarrow> bool" where
  "is_num v = (py_real v \<noteq> None)"

fun is_str :: "pyval \<Rightarrow> bool" where
  "is_str (PStr k) = True"
| "is_str v = False"

definition sort_steps :: "step list \<Rightarrow> error + step list" where
  "sort_steps steps =
     (if length steps \<le> 1 then Inr steps
      else if list_all (\<lambda>s. is_num (fst s)) steps then Inr (rev (sort_key num_key (rev steps)))
      else if list_all (\<lambda>s. is_str (fst s)) steps then Inr (rev (sort_key str_key (rev steps)))
      else Inl TypeError)"

definition apply_step :: "'img lib \<Rightarrow> step \<Rightarrow> 'img \<times> 'img \<Rightarrow> 'img \<times> 'img" where
  "apply_step L s cur =
     (let step_name = fst (snd s); config = snd (snd s);
          current_img = fst cur; current_gray = snd cur
      in if step_name = ''deskew'' then apply_deskew L current_img current_gray config
         else if step_name = ''denoise'' then apply_denoise L current_img current_gray config
         else if step_name = ''contrast'' then apply_contrast L current_img current_gray config
         else if step_name = ''brightness'' then apply_brightness L current_img current_gray config
         else if step_name = ''sharpen'' then apply_sharpen L current_img current_gray config
         else cur)"

definition working_pair :: "'img lib \<Rightarrow> 'img \<Rightarrow> error + 'img \<times> 'img" where
  "working_pair L img_array =
     (if is_color L img_array
      then and_then (unguarded (rgb2gray L img_array)) (\<lambda>gray. Inr (img_array, gray))
      else and_then (unguarded (gray2rgb L img_array)) (\<lambda>working_img. Inr (working_img, img_array)))"

definition apply_adaptive_preprocessing :: "'img lib \<Rightarrow> 'img \<Rightarrow> pydict \<Rightarrow> error + 'img" where
  "apply_adaptive_preprocessing L img_array recs =
     and_then (working_pair L img_array)
       (\<lambda>start. and_then (sort_steps (enabled_steps recs))
          (\<lambda>steps. Inr (fst (fold (apply_step L) steps start))))"

definition process_document :: "'img lib \<Rightarrow> 'img \<Rightarrow> error + 'img \<times> analysis" where
  "process_document L img_array =
     and_then (analyze_document_quality L img_array)
       (\<lambda>a. and_then (apply_adaptive_preprocessing L img_array (recommendations a))
          (\<lambda>processed_img. Inr (processed_img, a)))"

section \<open>Pass 2: automatic options, merge, overrides\<close>

definition derive_auto_preprocessing_options :: "analysis \<Rightarrow> pydict" where
  "derive_auto_preprocessing_options a =
     (let q = real_of_int (quality_score a);
          opts = [];
          noise = noise_level a;
          opts = (if noise = High then dict_set ''denoise'' (PDict [(''strength'', PInt 7)]) opts
                  else if noise = Medium then dict_set ''denoise'' (PDict [(''strength'', PInt 4)]) opts
                  else if noise = Low \<and> q < 45 then dict_set ''denoise'' (PDict [(''strength'', PInt 3)]) opts
                  else opts);
          contrast = contrast_quality a;
          opts = (if contrast = Low then dict_set ''contrast'' (PInt 30) opts
                  else if contrast = Medium \<and> q < 60 then dict_set ''contrast'' (PInt 15) opts
                  else opts);
          brightness = brightness_level a;
          opts = (if brightness = VeryDark then dict_set ''brightness'' (PInt 40) opts
                  else if brightness = Dark then dict_set ''brightness'' (PInt 20) opts
                  else if brightness = Overexposed then dict_set ''brightness'' (PInt (- 20)) opts
                  else opts);
          opts = (if blur_level a = Blurry \<and> q < 65 then dict_set ''sharpen'' (PInt 1) opts else opts);
          opts = (if document_type a \<in> set [SimpleText, TextHeavy] \<and> brightness \<noteq> Overexposed
                  then dict_set ''grayscale'' (PBool True) opts else opts)
      in opts)"

text \<open>One iteration of the loop of \<^verbatim>\<open>_merge_preprocessing_options\<close>, then the function.
  \<^verbatim>\<open>not user_opts\<close> holds for \<^verbatim>\<open>None\<close> and for the empty dictionary.\<close>

definition merge_item :: "string \<times> pyval \<Rightarrow> pydict \<Rightarrow> pydict" where
  "merge_item kv merged =
     (case (snd kv, map_of merged (fst kv)) of
        (PDict v, Some (PDict m)) \<Rightarrow> dict_set (fst kv) (PDict (dict_update m v)) merged
      | _ \<Rightarrow> dict_set (fst kv) (snd kv) merged)"

definition merge_preprocessing_options :: "pydict \<Rightarrow> pydict option \<Rightarrow> pydict" where
  "merge_preprocessing_options auto_opts user_opts =
     (case user_opts of
        None \<Rightarrow> auto_opts
      | Some u \<Rightarrow> if u = [] then auto_opts else fold merge_item u auto_opts)"

text \<open>The parameters the denoise override computes inside its \<^verbatim>\<open>try\<close>; an \<^verbatim>\<open>int(...)\<close>
  that raises there skips the step.\<close>

fun denoise_params :: "pyval \<Rightarrow> error + int \<times> int \<times> int" where
  "denoise_params (PBool b) = Inr (3, 7, 21)"
| "denoise_params (PInt n) = Inr (max 1 (min 15 n), 7, 21)"
| "denoise_params (PDict d) =
     and_then (py_int (dict_get d ''strength'' (PInt 3)))
       (\<lambda>s. and_then (py_int (dict_get d ''template'' (PInt 7)))
          (\<lambda>template. and_then (py_int (dict_get d ''search'' (PInt 21)))
             (\<lambda>search. Inr (max 1 (min 15 s), template, search))))"
| "denoise_params v = Inr (3, 7, 21)"

definition override_grayscale :: "'img lib \<Rightarrow> pydict \<Rightarrow> 'img \<Rightarrow> error + 'img" where
  "override_grayscale L opts working_img =
     (if truthy (dict_get opts ''grayscale'' (PBool False))
      then (if is_color L working_img then unguarded (rgb2gray L working_img) else Inr working_img)
      else Inr working_img)"

definition override_denoise :: "'img lib \<Rightarrow> pydict \<Rightarrow> 'img \<Rightarrow> 'img" where
  "override_denoise L opts working_img =
     (let denoise_opt = dict_get opts ''denoise'' (PBool False)
      in if truthy denoise_opt
         then (case denoise_params denoise_opt of
                 Inl e \<Rightarrow> working_img
               | Inr (strength, template, search) \<Rightarrow>
                   (case (if is_color L working_img
                          then nlmeans_colored L working_img (real_of_int strength) template search
                          else nlmeans L working_img (real_of_int strength) template search) of
                      None \<Rightarrow> working_img
                    | Some r \<Rightarrow> r))
         else working_img)"

text \<open>\<^verbatim>\<open>int(opts.get(key, 0) or 0)\<close>, evaluated outside every \<^verbatim>\<open>try\<close>.\<close>

definition int_option :: "pydict \<Rightarrow> string \<Rightarrow> error + int" where
  "int_option opts key =
     (let v = dict_get opts key (PInt 0) in py_int (if truthy v then v else PInt 0))"

definition override_contrast :: "'img lib \<Rightarrow> int \<Rightarrow> 'img \<Rightarrow> 'img" where
  "override_contrast L contrast_value working_img =
     (if contrast_value \<noteq> 0
      then (case (if \<not> is_color L working_img then gray2rgb L working_img else Some working_img) of
              None \<Rightarrow> working_img
            | Some pil_img \<Rightarrow>
                (case enhance_contrast L pil_img (1 + real_of_int contrast_value / 100) of
                   None \<Rightarrow> working_img
                 | Some enhanced_img \<Rightarrow> enhanced_img))
      else working_img)"

definition override_brightness :: "'img lib \<Rightarrow> int \<Rightarrow> 'img \<Rightarrow> 'img" where
  "override_brightness L brightness_value working_img =
     (if brightness_value \<noteq> 0
      then (case convert_scale_abs L working_img (real_of_int brightness_value) of
              None \<Rightarrow> working_img
            | Some r \<Rightarrow> r)
      else working_img)"

definition override_sharpen :: "'img lib \<Rightarrow> int \<Rightarrow> 'img \<Rightarrow> 'img" where
  "override_sharpen L sharpen_value working_img =
     (if sharpen_value > 0
      then (case sharpen_filter L working_img (real_of_int sharpen_value) of
              None \<Rightarrow> working_img
            | Some r \<Rightarrow> r)
      else working_img)"

definition apply_user_overrides :: "'img lib \<Rightarrow> 'img \<Rightarrow> pydict option \<Rightarrow> error + 'img" where
  "apply_user_overrides L processed_img preprocessing_options =
     and_then (if is_color L processed_img then Inr processed_img
               else unguarded (gray2rgb L processed_img))
       (\<lambda>w0. let opts = (case preprocessing_options of None \<Rightarrow> [] | Some d \<Rightarrow> d) in
          and_then (override_grayscale L opts w0)
            (\<lambda>w1. let w2 = override_denoise L opts w1 in
               and_then (int_option opts ''contrast'')
                 (\<lambda>contrast_value. let w3 = override_contrast L contrast_value w2 in
                    and_then (int_option opts ''brightness'')
                      (\<lambda>brightness_value. let w4 = override_brightness L brightness_value w3 in
                         and_then (int_option opts ''sharpen'')
                           (\<lambda>sharpen_value. Inr (override_sharpen L sharpen_value w4))))))"

section \<open>The entry point\<close>

text \<open>The report, without the wall-clock \<^verbatim>\<open>processing_time_ms\<close>.\<close>

record report =
  rep_quality_score :: int
  rep_document_type :: doc_type
  rep_brightness_level :: brightness
  rep_contrast_level :: level
  rep_noise_level :: level
  rep_skew_angle :: real
  rep_blur_level :: blur
  processing_applied :: "string list"
  original_size_kb :: real
  processed_size_kb :: real
  auto_preprocessing_options :: pydict
  final_preprocessing_options :: pydict

fun enabled_names :: "pydict \<Rightarrow> string list" where
  "enabled_names [] = []"
| "enabled_names ((k, PDict v) # rs) =
     (if truthy (dict_get v ''enabled'' (PBool False)) then k # enabled_names rs
      else enabled_names rs)"
| "enabled_names ((k, v) # rs) = enabled_names rs"

definition normalize_mode :: "'img lib \<Rightarrow> 'img \<Rightarrow> 'img" where
  "normalize_mode L pil_image =
     (if image_mode L pil_image = ''RGBA'' then rgba_on_white L pil_image
      else if image_mode L pil_image \<notin> set [''RGB'', ''L''] then convert_rgb L pil_image
      else pil_image)"

definition dynamic_preprocess_image ::
    "'img lib \<Rightarrow> bytes \<Rightarrow> pydict option \<Rightarrow> error + bytes \<times> report" where
  "dynamic_preprocess_image L image_bytes preprocessing_options =
     (case image_open L image_bytes of
        None \<Rightarrow> Inl DecodeError
      | Some pil_image \<Rightarrow>
          and_then (process_document L (normalize_mode L pil_image))
            (\<lambda>(processed_img, a).
               let auto_opts = derive_auto_preprocessing_options a;
                   final_opts = merge_preprocessing_options auto_opts preprocessing_options
               in and_then (if final_opts \<noteq> []
                            then apply_user_overrides L processed_img (Some final_opts)
                            else Inr processed_img)
                    (\<lambda>processed_img.
                       and_then (if \<not> is_color L processed_img
                                 then unguarded (gray2rgb L processed_img) else Inr processed_img)
                         (\<lambda>processed_image.
                            and_then (unguarded (save_jpeg L processed_image))
                              (\<lambda>out.
                                 Inr (out,
                                   \<lparr> rep_quality_score = quality_score a,
                                     rep_document_type = document_type a,
                                     rep_brightness_level = brightness_level a,
                                     rep_contrast_level = contrast_quality a,
                                     rep_noise_level = noise_level a,
                                     rep_skew_angle = angle (skew_angle a),
                                     rep_blur_level = blur_level a,
                                     processing_applied = enabled_names (recommendations a),
                                     original_size_kb = real (length image_bytes) / 1024,
                                     processed_size_kb = real (length out) / 1024,
                                     auto_preprocessing_options = auto_opts,
                                     final_preprocessing_options = final_opts \<rparr>))))))"

section \<open>A library instance for concrete runs\<close>

text \<open>
  To run the pipeline on concrete inputs the library is instantiated with images that
  only remember whether they have three channels and which calls produced them.  The
  instance takes the list of calls that raise and the measurements every image yields;
  bytes decode when they start with \<open>IMG\<close>.
\<close>

datatype sim_image = Sim (sim_color: bool) (sim_history: "string list")

definition sim_call :: "string list \<Rightarrow> string \<Rightarrow> bool \<Rightarrow> sim_image \<Rightarrow> sim_image option" where
  "sim_call failing name color img =
     (if name \<in> set failing then None else Some (Sim color (sim_history img @ [name])))"

definition sim_lib :: "string list \<Rightarrow> measurements \<Rightarrow> sim_image lib" where
  "sim_lib failing m =
     \<lparr> image_open = (\<lambda>b. if take 3 b = ''IMG'' then Some (Sim True []) else None),
       image_mode = (\<lambda>img. if sim_color img then ''RGB'' else ''L''),
       rgba_on_white = (\<lambda>img. img),
       convert_rgb = (\<lambda>img. img),
       is_color = sim_color,
       rgb2gray = (\<lambda>img. sim_call failing ''rgb2gray'' False img),
       gray2rgb = (\<lambda>img. sim_call failing ''gray2rgb'' True img),
       measure = (\<lambda>img. m),
       rotate = (\<lambda>img a. sim_call failing ''rotate'' (sim_color img) img),
       nlmeans_colored = (\<lambda>img h t s. sim_call failing ''nlmeans'' (sim_color img) img),
       nlmeans = (\<lambda>img h t s. sim_call failing ''nlmeans'' (sim_color img) img),
       enhance_contrast = (\<lambda>img f. sim_call failing ''enhance_contrast'' True img),
       convert_scale_abs = (\<lambda>img b. sim_call failing ''convert_scale_abs'' (sim_color img) img),
       sharpen_filter = (\<lambda>img k. sim_call failing ''sharpen_filter'' (sim_color img) img),
       save_jpeg = (\<lambda>img. if ''save_jpeg'' \<in> set failing then None
                            else Some (''JPEG'' @ concat (sim_history img))) \<rparr>"

text \<open>Measurements of a flat image without contours, and of a noisy, tilted, dark one.\<close>

definition flat_measurements :: measurements where
  "flat_measurements =
     \<lparr> laplacian_var = 0, noise_variance = 0, rms_contrast = 0, max_val = 128, min_val = 128,
       mean_brightness = 128, dark_pixels = 0, bright_pixels = 0,
       skew_in = \<lparr> hough_lines = None, contours = Some [] \<rparr>,
       edge_density = 0, doc_contours = [], density_ratio = 0 \<rparr>"

definition tilted_contour :: contour where
  "tilted_contour = \<lparr> area = 2000, rect_angle = 7, rect_w = 300, rect_h = 40 \<rparr>"

definition noisy_measurements :: measurements where
  "noisy_measurements =
     \<lparr> laplacian_var = 1200, noise_variance = 60, rms_contrast = 10, max_val = 90, min_val = 10,
       mean_brightness = 40, dark_pixels = 1 / 2, bright_pixels = 0,
       skew_in = \<lparr> hough_lines = None, contours = Some [tilted_contour] \<rparr>,
       edge_density = 0, doc_contours = [], density_ratio = 0 \<rparr>"

definition crowded_input :: skew_input where
  "crowded_input = \<lparr> hough_lines = None, contours = Some (replicate 11 tilted_contour) \<rparr>"

section \<open>The recommendation set as the specification words it\<close>

definition spec_recommendations :: "'a measured_scheme \<Rightarrow> pydict" where
  "spec_recommendations a =
     [(''deskew'',
         if skew_level (skew_angle a) = Medium \<or> skew_level (skew_angle a) = High
         then PDict [(''enabled'', PBool True),
                     (''priority'', PInt (if skew_level (skew_angle a) = High then 3 else 2)),
                     (''angle_threshold'', PFloat (1 / 2)), (''max_angle'', PInt 10)]
         else PDict [(''enabled'', PBool False), (''priority'', PInt 0)]),
      (''denoise'',
         if noise_level a = Medium \<or> noise_level a = High
         then PDict [(''enabled'', PBool True),
                     (''strength'', PInt (if noise_level a = High then 3 else 2)),
                     (''priority'', PInt (if noise_level a = High then 2 else 1))]
         else PDict [(''enabled'', PBool False), (''strength'', PInt 0), (''priority'', PInt 0)]),
      (''contrast'',
         if contrast_quality a = Low
         then PDict [(''enabled'', PBool True), (''adjustment'', PInt 30), (''priority'', PInt 2)]
         else PDict [(''enabled'', PBool False), (''adjustment'', PInt 0), (''priority'', PInt 0)]),
      (''brightness'',
         if brightness_level a = VeryDark
         then PDict [(''enabled'', PBool True), (''adjustment'', PInt 40), (''priority'', PInt 2)]
         else if brightness_level a = Dark
         then PDict [(''enabled'', PBool True), (''adjustment'', PInt 20), (''priority'', PInt 2)]
         else if brightness_level a = Overexposed
         then PDict [(''enabled'', PBool True), (''adjustment'', PInt (- 20)), (''priority'', PInt 1)]
         else PDict [(''enabled'', PBool False), (''adjustment'', PInt 0), (''priority'', PInt 0)]),
      (''sharpen'',
         if blur_level a = Blurry
         then PDict [(''enabled'', PBool True), (''strength'', PInt 2), (''priority'', PInt 1)]
         else PDict [(''enabled'', PBool False), (''strength'', PInt 0), (''priority'', PInt 0)]),
      (''threshold_method'',
         PStr (if document_type a = TextHeavy then ''adaptive'' else ''otsu''))]"

text \<open>A page that is only dark: every other level is the best one.\<close>

definition dark_page :: measured where
  "dark_page =
     \<lparr> noise_level = Low, contrast_quality = High, brightness_level = Dark,
       skew_angle = \<lparr> angle = 0, skew_level = Low, confidence = 0 \<rparr>,
       document_type = SimpleText, blur_level = Sharp, text_density = Low \<rparr>"


section \<open>Options of the documented types\<close>



section \<open>Verified properties\<close>

subsection \<open>Skew detection\<close>

lemma hough_angles_in_range: "list_all in_range (hough_angles ls)"
  by (induction ls) (simp_all add: Let_def)

lemma rect_angles_in_range: "list_all in_range (rect_angles cs)"
  by (induction cs) (simp_all add: Let_def)

lemma candidate_angles_in_range: "list_all in_range (candidate_angles i)"
  by (simp add: candidate_angles_def hough_angles_in_range rect_angles_in_range
      split: option.split)

lemma median_in_range:
  assumes "xs \<noteq> []" and "list_all in_range xs"
  shows "in_range (median xs)"
proof -
  let ?s = "sort xs"
  let ?n = "length ?s"
  have n: "0 < ?n" using assms(1) by simp
  have mem: "in_range (?s ! k)" if "k < ?n" for k
  proof -
    have "?s ! k \<in> set xs" using that nth_mem [of k ?s] by simp
    then show ?thesis using assms(2) by (simp add: list_all_iff)
  qed
  have a: "in_range (?s ! (?n div 2))" using n by (intro mem) simp
  have "?n div 2 - 1 < ?n" using n by arith
  then have b: "in_range (?s ! (?n div 2 - 1))" by (rule mem)
  show ?thesis
    using a b by (auto simp: median_def Let_def in_range_def)
qed

text \<open>The median on an odd and on an even number of angles, as \<^verbatim>\<open>np.median\<close> gives it.\<close>

lemma median_examples:
  "median [7] = 7 \<and> median [3, 1, 2] = 2 \<and> median [4, 1, 3, 2] = 5 / 2"
  by code_simp

text \<open>
  Claim C1, as the code has it.  For every input of the two estimators the skew detector
  returns the median of the pooled candidate angles (0 for an empty pool), an angle within
  \<open>[-45, 45]\<close>, the level \<open>High\<close> above 5 degrees, \<open>Medium\<close> above 1 degree and
  \<open>Low\<close> otherwise, and the confidence \<open>candidate_count / 10\<close>.  That confidence is
  the specification's \<open>min(1.0, candidate_count / 10)\<close> exactly when there are at most
  ten candidates: the code has no upper clamp.
\<close>

theorem detect_skew_result:
  "angle (detect_skew i) = (if candidate_angles i = [] then 0 else median (candidate_angles i))
   \<and> in_range (angle (detect_skew i))
   \<and> skew_level (detect_skew i) =
       (if \<bar>angle (detect_skew i)\<bar> > 5 then High
        else if \<bar>angle (detect_skew i)\<bar> > 1 then Medium else Low)
   \<and> confidence (detect_skew i) = real (length (candidate_angles i)) / 10
   \<and> (confidence (detect_skew i) = spec_confidence (length (candidate_angles i))
        \<longleftrightarrow> length (candidate_angles i) \<le> 10)"
proof -
  have 1: "angle (detect_skew i) = (if candidate_angles i = [] then 0 else median (candidate_angles i))"
    by (simp add: detect_skew_def Let_def)
  have 2: "in_range (angle (detect_skew i))"
  proof (cases "candidate_angles i = []")
    case True
    then show ?thesis by (simp add: 1 in_range_def)
  next
    case False
    then show ?thesis
      by (simp add: 1 median_in_range candidate_angles_in_range)
  qed
  have 3: "skew_level (detect_skew i) =
       (if \<bar>angle (detect_skew i)\<bar> > 5 then High
        else if \<bar>angle (detect_skew i)\<bar> > 1 then Medium else Low)"
    by (simp add: detect_skew_def Let_def level_of_angle_def)
  have 4: "confidence (detect_skew i) = real (length (candidate_angles i)) / 10"
    by (simp add: detect_skew_def Let_def)
  have 5: "(confidence (detect_skew i) = spec_confidence (length (candidate_angles i))
        \<longleftrightarrow> length (candidate_angles i) \<le> 10)"
    unfolding 4 spec_confidence_def by (auto simp: min_def)
  show ?thesis using 1 2 3 4 5 by blast
qed

text \<open>
  Eleven contours of more than 1000 pixels, each tilted by 7 degrees: the pool has eleven
  candidates and the confidence is 1.1, where claim C1 promises at most 1.0.
\<close>

theorem detect_skew_confidence_counterexample:
  "length (candidate_angles crowded_input) = 11
   \<and> confidence (detect_skew crowded_input) = 11 / 10
   \<and> spec_confidence (length (candidate_angles crowded_input)) = 1
   \<and> \<not> confidence (detect_skew crowded_input) \<le> 1"
  by code_simp

subsection \<open>Quality score\<close>

lemma contrast_bonus_case:
  "(case l of High \<Rightarrow> 25 | Medium \<Rightarrow> 15 | Low \<Rightarrow> 0) = contrast_bonus l"
  by (cases l) simp_all

lemma brightness_bonus_case:
  "(case b of Normal \<Rightarrow> 20 | Bright \<Rightarrow> 15 | Dark \<Rightarrow> 10 | VeryDark \<Rightarrow> 0 | Overexposed \<Rightarrow> 5)
     = brightness_bonus b"
  by (cases b) simp_all

lemma noise_penalty_case:
  "(case l of Low \<Rightarrow> 0 | Medium \<Rightarrow> - 5 | High \<Rightarrow> - 15) = noise_penalty l"
  by (cases l) simp_all

lemma blur_bonus_case:
  "(case b of Sharp \<Rightarrow> 5 | Moderate \<Rightarrow> 0 | Blurry \<Rightarrow> - 10) = blur_bonus b"
  by (cases b) simp_all

lemma skew_penalty_case:
  "(case l of Low \<Rightarrow> 0 | Medium \<Rightarrow> - 2 | High \<Rightarrow> - 5) = skew_penalty l"
  by (cases l) simp_all

lemma contrast_bonus_bounds: "0 \<le> contrast_bonus l \<and> contrast_bonus l \<le> 25"
  by (cases l) simp_all

lemma brightness_bonus_bounds: "0 \<le> brightness_bonus b \<and> brightness_bonus b \<le> 20"
  by (cases b) simp_all

lemma noise_penalty_bounds: "- 15 \<le> noise_penalty l \<and> noise_penalty l \<le> 0"
  by (cases l) simp_all

lemma blur_bonus_bounds: "- 10 \<le> blur_bonus b \<and> blur_bonus b \<le> 5"
  by (cases b) simp_all

lemma skew_penalty_bounds: "- 5 \<le> skew_penalty l \<and> skew_penalty l \<le> 0"
  by (cases l) simp_all

lemma calculate_quality_score_clamped:
  "calculate_quality_score a =
     max 0 (min 100 (50 + contrast_bonus (contrast_quality a) + brightness_bonus (brightness_level a)
        + noise_penalty (noise_level a) + blur_bonus (blur_level a)
        + skew_penalty (skew_level (skew_angle a))))"
  by (simp only: calculate_quality_score_def Let_def contrast_bonus_case brightness_bonus_case
      noise_penalty_case blur_bonus_case skew_penalty_case)

text \<open>
  Claim C3.  The quality score is 50 plus the five level-indexed bonuses of the
  specification's tables; the clamp to \<open>[0, 100]\<close> never changes that sum, so the score
  lies between 0 and 100; and an analysis with contrast low, brightness normal, noise
  low, blur blurry and skew low scores exactly 60.
\<close>

theorem calculate_quality_score_formula:
  "calculate_quality_score a =
     50 + contrast_bonus (contrast_quality a) + brightness_bonus (brightness_level a)
        + noise_penalty (noise_level a) + blur_bonus (blur_level a)
        + skew_penalty (skew_level (skew_angle a))
   \<and> calculate_quality_score a =
       max 0 (min 100 (50 + contrast_bonus (contrast_quality a) + brightness_bonus (brightness_level a)
        + noise_penalty (noise_level a) + blur_bonus (blur_level a)
        + skew_penalty (skew_level (skew_angle a))))
   \<and> 0 \<le> calculate_quality_score a \<and> calculate_quality_score a \<le> 100
   \<and> calculate_quality_score
        (a\<lparr> contrast_quality := Low, brightness_level := Normal, noise_level := Low,
            blur_level := Blurry, skew_angle := (skew_angle a)\<lparr> skew_level := Low \<rparr> \<rparr>) = 60"
proof -
  have eq: "calculate_quality_score a =
     50 + contrast_bonus (contrast_quality a) + brightness_bonus (brightness_level a)
        + noise_penalty (noise_level a) + blur_bonus (blur_level a)
        + skew_penalty (skew_level (skew_angle a))"
    using contrast_bonus_bounds [of "contrast_quality a"]
      brightness_bonus_bounds [of "brightness_level a"]
      noise_penalty_bounds [of "noise_level a"]
      blur_bonus_bounds [of "blur_level a"]
      skew_penalty_bounds [of "skew_level (skew_angle a)"]
    unfolding calculate_quality_score_clamped by linarith
  have bounds: "0 \<le> calculate_quality_score a \<and> calculate_quality_score a \<le> 100"
    unfolding calculate_quality_score_clamped by simp
  have gray: "calculate_quality_score
        (a\<lparr> contrast_quality := Low, brightness_level := Normal, noise_level := Low,
            blur_level := Blurry, skew_angle := (skew_angle a)\<lparr> skew_level := Low \<rparr> \<rparr>) = 60"
    by (simp add: calculate_quality_score_def)
  show ?thesis
    using eq bounds gray calculate_quality_score_clamped [of a] by simp
qed

subsection \<open>Recommendations\<close>

lemma if_cons_head: "(if c then (k, v) # xs else (k, w) # xs) = (k, if c then v else w) # xs"
  by simp

lemma if_cons_tail: "(if c then x # xs else x # ys) = x # (if c then xs else ys)"
  by simp

lemma generate_recommendations_eq:
  "generate_recommendations a = spec_recommendations a"
  by (cases "brightness_level a")
     (simp_all add: generate_recommendations_def spec_recommendations_def
        default_recommendations_def dict_set_def Let_def if_cons_head if_cons_tail
        split del: if_split cong: if_cong)

text \<open>
  Claim C5, with the brightness adjustments paired as the code pairs them.  For every
  analysis the recommendation set is the table \<open>spec_recommendations\<close>: deskew,
  denoise, contrast, sharpen and the threshold method as claimed, and brightness enabled
  for very dark, dark and overexposed pages with adjustment 40, 20 and -20 in that
  order (priority 2, 2 and 1).
\<close>

theorem generate_recommendations_table:
  "generate_recommendations a = spec_recommendations a"
  by (rule generate_recommendations_eq)

text \<open>
  Claim C5 lists the levels dark, very dark, overexposed and the adjustments 40, 20, -20
  "respectively".  On a dark page the code recommends 20, on a very dark page 40.
\<close>

theorem generate_recommendations_brightness_counterexample:
  "brightness_level dark_page = Dark
   \<and> map_of (generate_recommendations dark_page) ''brightness''
       = Some (PDict [(''enabled'', PBool True), (''adjustment'', PInt 20), (''priority'', PInt 2)])
   \<and> map_of (generate_recommendations (dark_page\<lparr> brightness_level := VeryDark \<rparr>)) ''brightness''
       = Some (PDict [(''enabled'', PBool True), (''adjustment'', PInt 40), (''priority'', PInt 2)])"
  by code_simp

subsection \<open>Automatic options\<close>

lemma dict_set_fresh: "k \<notin> fst ` set d \<Longrightarrow> dict_set k v d = d @ [(k, v)]"
  by (induction d) (auto simp: dict_set_def)

lemma derive_auto_options_eq:
  "derive_auto_preprocessing_options a =
     (if noise_level a = High then [(''denoise'', PDict [(''strength'', PInt 7)])]
      else if noise_level a = Medium then [(''denoise'', PDict [(''strength'', PInt 4)])]
      else if noise_level a = Low \<and> quality_score a < 45
      then [(''denoise'', PDict [(''strength'', PInt 3)])] else [])
     @ (if contrast_quality a = Low then [(''contrast'', PInt 30)]
        else if contrast_quality a = Medium \<and> quality_score a < 60 then [(''contrast'', PInt 15)]
        else [])
     @ (if brightness_level a = VeryDark then [(''brightness'', PInt 40)]
        else if brightness_level a = Dark then [(''brightness'', PInt 20)]
        else if brightness_level a = Overexposed then [(''brightness'', PInt (- 20))]
        else [])
     @ (if blur_level a = Blurry \<and> quality_score a < 65 then [(''sharpen'', PInt 1)] else [])
     @ (if (document_type a = SimpleText \<or> document_type a = TextHeavy)
           \<and> brightness_level a \<noteq> Overexposed
        then [(''grayscale'', PBool True)] else [])"
proof -
  define d1 where "d1 =
     (if noise_level a = High then [(''denoise'', PDict [(''strength'', PInt 7)])]
      else if noise_level a = Medium then [(''denoise'', PDict [(''strength'', PInt 4)])]
      else if noise_level a = Low \<and> quality_score a < 45
      then [(''denoise'', PDict [(''strength'', PInt 3)])] else [])"
  define p2 where "p2 =
     (if contrast_quality a = Low then [(''contrast'', PInt 30)]
        else if contrast_quality a = Medium \<and> quality_score a < 60 then [(''contrast'', PInt 15)]
        else [])"
  define p3 where "p3 =
     (if brightness_level a = VeryDark then [(''brightness'', PInt 40)]
        else if brightness_level a = Dark then [(''brightness'', PInt 20)]
        else if brightness_level a = Overexposed then [(''brightness'', PInt (- 20))]
        else [])"
  define p4 where "p4 =
     (if blur_level a = Blurry \<and> quality_score a < 65 then [(''sharpen'', PInt 1)] else [])"
  define p5 where "p5 =
     (if (document_type a = SimpleText \<or> document_type a = TextHeavy)
           \<and> brightness_level a \<noteq> Overexposed
        then [(''grayscale'', PBool True)] else [])"
  have k1: "fst ` set d1 \<subseteq> {''denoise''}" by (auto simp: d1_def split: if_splits)
  have k2: "fst ` set p2 \<subseteq> {''contrast''}" by (auto simp: p2_def split: if_splits)
  have k3: "fst ` set p3 \<subseteq> {''brightness''}" by (auto simp: p3_def split: if_splits)
  have k4: "fst ` set p4 \<subseteq> {''sharpen''}" by (auto simp: p4_def split: if_splits)
  have s1: "(if noise_level a = High then dict_set ''denoise'' (PDict [(''strength'', PInt 7)]) []
             else if noise_level a = Medium then dict_set ''denoise'' (PDict [(''strength'', PInt 4)]) []
             else if noise_level a = Low \<and> real_of_int (quality_score a) < 45
             then dict_set ''denoise'' (PDict [(''strength'', PInt 3)]) [] else []) = d1"
    by (simp add: d1_def dict_set_def)
  have f2: "''contrast'' \<notin> fst ` set d1" using k1 by auto
  have s2: "(if contrast_quality a = Low then dict_set ''contrast'' (PInt 30) d1
             else if contrast_quality a = Medium \<and> real_of_int (quality_score a) < 60
             then dict_set ''contrast'' (PInt 15) d1 else d1) = d1 @ p2"
    by (simp add: p2_def dict_set_fresh [OF f2])
  have f3: "''brightness'' \<notin> fst ` set (d1 @ p2)" using k1 k2 by auto
  have s3: "(if brightness_level a = VeryDark then dict_set ''brightness'' (PInt 40) (d1 @ p2)
             else if brightness_level a = Dark then dict_set ''brightness'' (PInt 20) (d1 @ p2)
             else if brightness_level a = Overexposed then dict_set ''brightness'' (PInt (- 20)) (d1 @ p2)
             else d1 @ p2) = d1 @ p2 @ p3"
    by (simp add: p3_def dict_set_fresh [OF f3])
  have f4: "''sharpen'' \<notin> fst ` set (d1 @ p2 @ p3)" using k1 k2 k3 by auto
  have s4: "(if blur_level a = Blurry \<and> real_of_int (quality_score a) < 65
             then dict_set ''sharpen'' (PInt 1) (d1 @ p2 @ p3) else d1 @ p2 @ p3) = d1 @ p2 @ p3 @ p4"
    by (simp add: p4_def dict_set_fresh [OF f4])
  have f5: "''grayscale'' \<notin> fst ` set (d1 @ p2 @ p3 @ p4)" using k1 k2 k3 k4 by auto
  have s5: "(if document_type a \<in> set [SimpleText, TextHeavy] \<and> brightness_level a \<noteq> Overexposed
             then dict_set ''grayscale'' (PBool True) (d1 @ p2 @ p3 @ p4) else d1 @ p2 @ p3 @ p4)
            = d1 @ p2 @ p3 @ p4 @ p5"
    by (simp add: p5_def dict_set_fresh [OF f5])
  have table: "derive_auto_preprocessing_options a = d1 @ p2 @ p3 @ p4 @ p5"
    unfolding derive_auto_preprocessing_options_def Let_def
    by (simp only: s1 s2 s3 s4 s5)
  show ?thesis
    unfolding table d1_def p2_def p3_def p4_def p5_def ..
qed

text \<open>
  Claim C6.  The automatic options are exactly, in this order: a denoise dictionary with
  strength 7, 4 or 3 (noise high; medium; low with a score below 45), contrast 30 or 15
  (contrast low; medium with a score below 60), brightness 40, 20 or -20 (very dark,
  dark, overexposed), sharpen 1 (blurry with a score below 65) and grayscale \<open>True\<close>
  (simple or text-heavy document that is not overexposed); nothing else.  An all-black
  image (mean 0, all pixels dark) is classified very dark, and a very dark analysis gets
  brightness 40.
\<close>

theorem derive_auto_options_table:
  "derive_auto_preprocessing_options a =
     (if noise_level a = High then [(''denoise'', PDict [(''strength'', PInt 7)])]
      else if noise_level a = Medium then [(''denoise'', PDict [(''strength'', PInt 4)])]
      else if noise_level a = Low \<and> quality_score a < 45
      then [(''denoise'', PDict [(''strength'', PInt 3)])] else [])
     @ (if contrast_quality a = Low then [(''contrast'', PInt 30)]
        else if contrast_quality a = Medium \<and> quality_score a < 60 then [(''contrast'', PInt 15)]
        else [])
     @ (if brightness_level a = VeryDark then [(''brightness'', PInt 40)]
        else if brightness_level a = Dark then [(''brightness'', PInt 20)]
        else if brightness_level a = Overexposed then [(''brightness'', PInt (- 20))]
        else [])
     @ (if blur_level a = Blurry \<and> quality_score a < 65 then [(''sharpen'', PInt 1)] else [])
     @ (if (document_type a = SimpleText \<or> document_type a = TextHeavy)
           \<and> brightness_level a \<noteq> Overexposed
        then [(''grayscale'', PBool True)] else [])
   \<and> assess_brightness (m\<lparr> mean_brightness := 0, dark_pixels := 1 \<rparr>) = VeryDark
   \<and> map_of (derive_auto_preprocessing_options (a\<lparr> brightness_level := VeryDark \<rparr>)) ''brightness''
       = Some (PInt 40)"
proof -
  have black: "assess_brightness (m\<lparr> mean_brightness := 0, dark_pixels := 1 \<rparr>) = VeryDark"
    by (simp add: assess_brightness_def)
  have forty: "map_of (derive_auto_preprocessing_options (a\<lparr> brightness_level := VeryDark \<rparr>))
      ''brightness'' = Some (PInt 40)"
    by (simp add: derive_auto_preprocessing_options_def Let_def dict_set_def update_conv')
  show ?thesis
    using derive_auto_options_eq [of a] black forty by (intro conjI)
qed

subsection \<open>Merging the options\<close>

lemma map_of_dict_set: "map_of (dict_set k v d) = (map_of d)(k \<mapsto> v)"
  by (simp add: dict_set_def update_conv')

lemma map_of_dict_update:
  "distinct (map fst e) \<Longrightarrow> map_of (dict_update d e) = map_of d ++ map_of e"
proof (induction e arbitrary: d)
  case Nil
  then show ?case by (simp add: dict_update_def)
next
  case (Cons kv e)
  obtain k v where kv: "kv = (k, v)" by (cases kv)
  from Cons.prems kv have fresh: "k \<notin> fst ` set e" and dist: "distinct (map fst e)"
    by auto
  have "map_of (dict_update d (kv # e)) = map_of (dict_update (dict_set k v d) e)"
    by (simp add: dict_update_def kv)
  also have "\<dots> = map_of (dict_set k v d) ++ map_of e"
    by (rule Cons.IH [OF dist])
  also have "\<dots> = (map_of d)(k \<mapsto> v) ++ map_of e"
    by (simp only: map_of_dict_set)
  also have "\<dots> = map_of d ++ map_of (kv # e)"
  proof
    fix x
    have "map_of e k = None" using fresh by (simp add: map_of_eq_None_iff)
    then show "((map_of d)(k \<mapsto> v) ++ map_of e) x = (map_of d ++ map_of (kv # e)) x"
      by (auto simp: kv map_add_def split: option.splits)
  qed
  finally show ?case .
qed

text \<open>The value one loop iteration stores under the key.\<close>

lemma map_of_merge_item:
  "map_of (merge_item (k, v) m) =
     (map_of m)(k \<mapsto> (case (v, map_of m k) of
                          (PDict vd, Some (PDict md)) \<Rightarrow> PDict (dict_update md vd)
                        | _ \<Rightarrow> v))"
  by (simp add: merge_item_def map_of_dict_set split: pyval.splits option.splits)

lemma map_of_merge_item_other:
  "k \<noteq> k0 \<Longrightarrow> map_of (merge_item (k0, v0) m) k = map_of m k"
  by (simp add: map_of_merge_item)

lemma map_of_merge_item_same:
  "map_of (merge_item (k, v) m) k =
     Some (case (v, map_of m k) of
             (PDict vd, Some (PDict md)) \<Rightarrow> PDict (dict_update md vd)
           | _ \<Rightarrow> v)"
  by (simp add: map_of_merge_item)

lemma map_of_fold_merge_item:
  "distinct (map fst u) \<Longrightarrow>
   map_of (fold merge_item u auto) k =
     (case map_of u k of
        None \<Rightarrow> map_of auto k
      | Some v \<Rightarrow> Some (case (v, map_of auto k) of
                         (PDict vd, Some (PDict md)) \<Rightarrow> PDict (dict_update md vd)
                       | _ \<Rightarrow> v))"
proof (induction u arbitrary: auto)
  case Nil
  then show ?case by simp
next
  case (Cons kv u)
  obtain k0 v0 where kv: "kv = (k0, v0)" by (cases kv)
  from Cons.prems kv have fresh: "map_of u k0 = None" and dist: "distinct (map fst u)"
    by (auto simp: map_of_eq_None_iff)
  show ?case
  proof (cases "k = k0")
    case True
    then show ?thesis
      using Cons.IH [OF dist, of "merge_item (k0, v0) auto"] fresh
      by (simp add: kv map_of_merge_item_same)
  next
    case False
    have "map_of (fold merge_item (kv # u) auto) k
        = map_of (fold merge_item u (merge_item (k0, v0) auto)) k"
      by (simp add: kv)
    also have "\<dots> = (case map_of u k of
        None \<Rightarrow> map_of auto k
      | Some v \<Rightarrow> Some (case (v, map_of auto k) of
                         (PDict vd, Some (PDict md)) \<Rightarrow> PDict (dict_update md vd)
                       | _ \<Rightarrow> v))"
      unfolding Cons.IH [OF dist, of "merge_item (k0, v0) auto"]
        map_of_merge_item_other [OF False] ..
    also have "\<dots> = (case map_of (kv # u) k of
        None \<Rightarrow> map_of auto k
      | Some v \<Rightarrow> Some (case (v, map_of auto k) of
                         (PDict vd, Some (PDict md)) \<Rightarrow> PDict (dict_update md vd)
                       | _ \<Rightarrow> v))"
      using False by (simp add: kv)
    finally show ?thesis .
  qed
qed

lemma merge_lookup:
  "distinct (map fst u) \<Longrightarrow>
   map_of (merge_preprocessing_options auto (Some u)) k =
     (case map_of u k of
        None \<Rightarrow> map_of auto k
      | Some v \<Rightarrow> Some (case (v, map_of auto k) of
                         (PDict vd, Some (PDict md)) \<Rightarrow> PDict (dict_update md vd)
                       | _ \<Rightarrow> v))"
  by (cases "u = []") (simp_all add: merge_preprocessing_options_def map_of_fold_merge_item)

lemma merge_scalar:
  assumes "distinct (map fst u)" and "(k, v) \<in> set u" and "\<not> is_dict v"
  shows "map_of (merge_preprocessing_options auto (Some u)) k = Some v"
proof -
  have "map_of u k = Some v" using assms(1,2) by simp
  then show ?thesis
    using assms(3) by (cases v) (simp_all add: merge_lookup [OF assms(1)])
qed

text \<open>
  Claim C4.  Merging with \<^verbatim>\<open>None\<close> or with the empty dictionary returns the automatic
  options.  For user options with distinct keys (a Python dictionary): a key whose user
  value is not a dictionary gets the user value; a key bound to a dictionary on both
  sides gets a dictionary in which every sub-key of the user's has the user's value and
  every other sub-key is as in the automatic one; a key the user does not mention is
  unchanged.  The denoise scenario of the specification evaluates as stated.
\<close>

theorem merge_preprocessing_options_precedence:
  assumes "distinct (map fst user_opts)"
  shows "merge_preprocessing_options auto_opts None = auto_opts
    \<and> merge_preprocessing_options auto_opts (Some []) = auto_opts
    \<and> (\<forall>k v. (k, v) \<in> set user_opts \<and> \<not> is_dict v \<longrightarrow>
          map_of (merge_preprocessing_options auto_opts (Some user_opts)) k = Some v)
    \<and> (\<forall>k vd ad. (k, PDict vd) \<in> set user_opts \<and> map_of auto_opts k = Some (PDict ad)
            \<and> distinct (map fst vd) \<longrightarrow>
          (\<exists>md. map_of (merge_preprocessing_options auto_opts (Some user_opts)) k = Some (PDict md)
             \<and> (\<forall>sk sv. map_of vd sk = Some sv \<longrightarrow> map_of md sk = Some sv)
             \<and> (\<forall>sk. map_of vd sk = None \<longrightarrow> map_of md sk = map_of ad sk)))
    \<and> (\<forall>k. k \<notin> fst ` set user_opts \<longrightarrow>
          map_of (merge_preprocessing_options auto_opts (Some user_opts)) k = map_of auto_opts k)
    \<and> merge_preprocessing_options
         [(''denoise'', PDict [(''strength'', PInt 3), (''template'', PInt 7), (''search'', PInt 21)])]
         (Some [(''denoise'', PDict [(''strength'', PInt 9)])])
       = [(''denoise'', PDict [(''strength'', PInt 9), (''template'', PInt 7), (''search'', PInt 21)])]"
proof -
  let ?merged = "merge_preprocessing_options auto_opts (Some user_opts)"
  have none: "merge_preprocessing_options auto_opts None = auto_opts"
    and empty: "merge_preprocessing_options auto_opts (Some []) = auto_opts"
    by (simp_all add: merge_preprocessing_options_def)
  have scalar: "\<forall>k v. (k, v) \<in> set user_opts \<and> \<not> is_dict v \<longrightarrow> map_of ?merged k = Some v"
    using merge_scalar [OF assms] by blast
  have nested: "\<exists>md. map_of ?merged k = Some (PDict md)
             \<and> (\<forall>sk sv. map_of vd sk = Some sv \<longrightarrow> map_of md sk = Some sv)
             \<and> (\<forall>sk. map_of vd sk = None \<longrightarrow> map_of md sk = map_of ad sk)"
    if "(k, PDict vd) \<in> set user_opts" and "map_of auto_opts k = Some (PDict ad)"
      and "distinct (map fst vd)" for k vd ad
  proof -
    have "map_of user_opts k = Some (PDict vd)" using assms that(1) by simp
    then have "map_of ?merged k = Some (PDict (dict_update ad vd))"
      using that(2) by (simp add: merge_lookup [OF assms])
    moreover have "map_of (dict_update ad vd) = map_of ad ++ map_of vd"
      using that(3) by (rule map_of_dict_update)
    ultimately show ?thesis
      by (auto simp: map_add_def)
  qed
  have untouched: "\<forall>k. k \<notin> fst ` set user_opts \<longrightarrow> map_of ?merged k = map_of auto_opts k"
  proof (intro allI impI)
    fix k assume "k \<notin> fst ` set user_opts"
    then have "map_of user_opts k = None" by (simp add: map_of_eq_None_iff)
    then show "map_of ?merged k = map_of auto_opts k"
      by (simp add: merge_lookup [OF assms])
  qed
  have scenario: "merge_preprocessing_options
         [(''denoise'', PDict [(''strength'', PInt 3), (''template'', PInt 7), (''search'', PInt 21)])]
         (Some [(''denoise'', PDict [(''strength'', PInt 9)])])
       = [(''denoise'', PDict [(''strength'', PInt 9), (''template'', PInt 7), (''search'', PInt 21)])]"
    by (simp add: merge_preprocessing_options_def merge_item_def dict_update_def dict_set_def)
  show ?thesis
    using none empty scalar nested untouched scenario by blast
qed

text \<open>The theorem at a user dictionary with a scalar and a nested entry.\<close>

theorem merge_preprocessing_options_precedence_witness:
  "distinct (map fst [(''contrast'', PInt 10), (''denoise'', PDict [(''strength'', PInt 9)])])
   \<and> map_of (merge_preprocessing_options
        [(''denoise'', PDict [(''strength'', PInt 7)]), (''contrast'', PInt 30)]
        (Some [(''contrast'', PInt 10), (''denoise'', PDict [(''strength'', PInt 9)])])) ''contrast''
      = Some (PInt 10)"
proof -
  have d: "distinct (map fst [(''contrast'', PInt 10), (''denoise'', PDict [(''strength'', PInt 9)])])"
    by simp
  show ?thesis
    using d merge_preprocessing_options_precedence [OF d,
        of "[(''denoise'', PDict [(''strength'', PInt 7)]), (''contrast'', PInt 30)]"]
    by simp
qed

subsection \<open>The override pass\<close>

text \<open>
  Claim C7.  In the override pass a boolean denoise option yields strength 3, template 7
  and search 21; an integer \<open>n\<close> yields \<open>n\<close> clamped to \<open>[1, 15]\<close> with template 7 and
  search 21, so 50 gives 15 and a negative value gives 1 (0 is falsy and skips the step);
  a dictionary whose entries \<^verbatim>\<open>int(...)\<close> converts yields its own strength clamped to
  \<open>[1, 15]\<close> (default 3), its own template (default 7) and search (default 21).  These
  are the parameters the denoising call receives whenever the option is truthy.
\<close>

theorem denoise_params_effective:
  "denoise_params (PBool b) = Inr (3, 7, 21)
   \<and> denoise_params (PInt n) = Inr (max 1 (min 15 n), 7, 21)
   \<and> 1 \<le> max 1 (min 15 n) \<and> max 1 (min 15 n) \<le> 15
   \<and> denoise_params (PInt 50) = Inr (15, 7, 21)
   \<and> denoise_params (PInt (- int m)) = Inr (1, 7, 21)
   \<and> (py_int (dict_get d ''strength'' (PInt 3)) = Inr s
        \<and> py_int (dict_get d ''template'' (PInt 7)) = Inr template
        \<and> py_int (dict_get d ''search'' (PInt 21)) = Inr search
       \<longrightarrow> denoise_params (PDict d) = Inr (max 1 (min 15 s), template, search)
           \<and> 1 \<le> max 1 (min 15 s) \<and> max 1 (min 15 s) \<le> 15)
   \<and> (truthy (dict_get opts ''denoise'' (PBool False))
        \<and> denoise_params (dict_get opts ''denoise'' (PBool False)) = Inr (strength, t, se)
       \<longrightarrow> override_denoise L opts img =
             (case (if is_color L img then nlmeans_colored L img (real_of_int strength) t se
                    else nlmeans L img (real_of_int strength) t se) of
                None \<Rightarrow> img | Some r \<Rightarrow> r))"
proof -
  have bool: "denoise_params (PBool b) = Inr (3, 7, 21)" by simp
  have int: "denoise_params (PInt n) = Inr (max 1 (min 15 n), 7, 21)" for n by simp
  have clamp: "1 \<le> max 1 (min 15 n) \<and> max 1 (min 15 n) \<le> (15::int)" for n by simp
  have fifty: "denoise_params (PInt 50) = Inr (15, 7, 21)" by simp
  have neg: "denoise_params (PInt (- int m)) = Inr (1, 7, 21)" by simp
  have dict: "denoise_params (PDict d) = Inr (max 1 (min 15 s), template, search)"
    if "py_int (dict_get d ''strength'' (PInt 3)) = Inr s"
      and "py_int (dict_get d ''template'' (PInt 7)) = Inr template"
      and "py_int (dict_get d ''search'' (PInt 21)) = Inr search"
    using that by (simp add: and_then_def)
  have used: "override_denoise L opts img =
             (case (if is_color L img then nlmeans_colored L img (real_of_int strength) t se
                    else nlmeans L img (real_of_int strength) t se) of
                None \<Rightarrow> img | Some r \<Rightarrow> r)"
    if "truthy (dict_get opts ''denoise'' (PBool False))"
      and "denoise_params (dict_get opts ''denoise'' (PBool False)) = Inr (strength, t, se)"
    using that by (simp add: override_denoise_def Let_def)
  show ?thesis
    using bool int [of n] clamp [of n] clamp [of s] fifty neg dict used by blast
qed

text \<open>The theorem at the dictionary \<^verbatim>\<open>{"strength": 50, "search": 15}\<close>.\<close>

theorem denoise_params_effective_witness:
  "py_int (dict_get [(''strength'', PInt 50), (''search'', PInt 15)] ''strength'' (PInt 3)) = Inr 50
   \<and> py_int (dict_get [(''strength'', PInt 50), (''search'', PInt 15)] ''template'' (PInt 7)) = Inr 7
   \<and> py_int (dict_get [(''strength'', PInt 50), (''search'', PInt 15)] ''search'' (PInt 21)) = Inr 15
   \<and> denoise_params (PDict [(''strength'', PInt 50), (''search'', PInt 15)]) = Inr (15, 7, 15)"
  using denoise_params_effective
    [of _ _ _ "[(''strength'', PInt 50), (''search'', PInt 15)]" 50 7 15]
  by (simp add: dict_get_def and_then_def)

lemma map_of_merge_falsy:
  assumes "distinct (map fst u)" and "(k, v) \<in> set u" and "v = PBool False \<or> v = PInt 0"
  shows "map_of (merge_preprocessing_options auto (Some u)) k = Some v"
  using assms(3) merge_scalar [OF assms(1,2)] by auto

text \<open>
  Claim C10.  Let the user options (distinct keys) bind a key to \<^verbatim>\<open>False\<close> or \<^verbatim>\<open>0\<close>.
  Then the merged options bind the key to that value, whatever the automatic options
  held, and the override pass skips the key's operator: the grayscale and the denoise
  step return the image unchanged, and for contrast, brightness and sharpen the
  integer read from the options is 0, for which the step returns the image unchanged.
\<close>

theorem falsy_option_disables_override:
  assumes "distinct (map fst user_opts)" and "(k, v) \<in> set user_opts"
    and "v = PBool False \<or> v = PInt 0"
  shows "map_of (merge_preprocessing_options auto_opts (Some user_opts)) k = Some v
    \<and> merge_preprocessing_options auto_opts (Some user_opts) \<noteq> []
    \<and> (k = ''grayscale'' \<longrightarrow>
          override_grayscale L (merge_preprocessing_options auto_opts (Some user_opts)) img = Inr img)
    \<and> (k = ''denoise'' \<longrightarrow>
          override_denoise L (merge_preprocessing_options auto_opts (Some user_opts)) img = img)
    \<and> (k = ''contrast'' \<or> k = ''brightness'' \<or> k = ''sharpen'' \<longrightarrow>
          int_option (merge_preprocessing_options auto_opts (Some user_opts)) k = Inr 0)
    \<and> override_contrast L 0 img = img
    \<and> override_brightness L 0 img = img
    \<and> override_sharpen L 0 img = img"
proof -
  let ?merged = "merge_preprocessing_options auto_opts (Some user_opts)"
  have look: "map_of ?merged k = Some v"
    using assms by (rule map_of_merge_falsy)
  then have get: "dict_get ?merged k dflt = v" for dflt
    by (simp add: dict_get_def)
  have falsy: "\<not> truthy v" using assms(3) by auto
  have nonempty: "?merged \<noteq> []" using look by auto
  have gray: "override_grayscale L ?merged img = Inr img" if "k = ''grayscale''"
    using get [of "PBool False"] falsy that by (simp add: override_grayscale_def)
  have den: "override_denoise L ?merged img = img" if "k = ''denoise''"
    using get [of "PBool False"] falsy that by (simp add: override_denoise_def Let_def)
  have num: "int_option ?merged k = Inr 0"
    using get [of "PInt 0"] falsy by (simp add: int_option_def Let_def)
  have skip: "override_contrast L 0 img = img" "override_brightness L 0 img = img"
    "override_sharpen L 0 img = img"
    by (simp_all add: override_contrast_def override_brightness_def override_sharpen_def)
  show ?thesis
    using look nonempty gray den num skip by blast
qed

text \<open>The theorem for \<^verbatim>\<open>{"denoise": False, "contrast": 0}\<close> against automatic denoise
  and contrast options.\<close>

theorem falsy_option_disables_override_witness:
  "distinct (map fst [(''denoise'', PBool False), (''contrast'', PInt 0)])
   \<and> (''denoise'', PBool False) \<in> set [(''denoise'', PBool False), (''contrast'', PInt 0)]
   \<and> map_of (merge_preprocessing_options
         [(''denoise'', PDict [(''strength'', PInt 7)]), (''contrast'', PInt 30)]
         (Some [(''denoise'', PBool False), (''contrast'', PInt 0)])) ''denoise'' = Some (PBool False)
   \<and> override_denoise (sim_lib [] flat_measurements)
        (merge_preprocessing_options
           [(''denoise'', PDict [(''strength'', PInt 7)]), (''contrast'', PInt 30)]
           (Some [(''denoise'', PBool False), (''contrast'', PInt 0)])) (Sim True []) = Sim True []"
proof -
  have d: "distinct (map fst [(''denoise'', PBool False), (''contrast'', PInt 0)])" by simp
  have m: "(''denoise'', PBool False) \<in> set [(''denoise'', PBool False), (''contrast'', PInt 0)]"
    by simp
  have f: "PBool False = PBool False \<or> PBool False = PInt 0" by simp
  show ?thesis
    using d m falsy_option_disables_override [OF d m f,
      of "[(''denoise'', PDict [(''strength'', PInt 7)]), (''contrast'', PInt 30)]"
         "sim_lib [] flat_measurements" "Sim True []"]
    by simp
qed

subsection \<open>The priority-ordered pass\<close>






lemma py_sort_mset: "mset (rev (sort_key f (rev xs))) = mset xs"
  by simp


lemma generated_enabled_names:
  "enabled_names (generate_recommendations a) =
     (if skew_level (skew_angle a) = Medium \<or> skew_level (skew_angle a) = High then [''deskew''] else [])
     @ (if noise_level a = Medium \<or> noise_level a = High then [''denoise''] else [])
     @ (if contrast_quality a = Low then [''contrast''] else [])
     @ (if brightness_level a = VeryDark \<or> brightness_level a = Dark
           \<or> brightness_level a = Overexposed then [''brightness''] else [])
     @ (if blur_level a = Blurry then [''sharpen''] else [])"
  unfolding generate_recommendations_eq spec_recommendations_def
  by (simp add: dict_get_def)







subsection \<open>The entry point\<close>

lemma analyze_document_quality_result:
  assumes "analyze_document_quality L x = Inr a"
  shows "recommendations a = generate_recommendations a
    \<and> quality_score a = calculate_quality_score a
    \<and> skew_level (skew_angle a) = level_of_angle (angle (skew_angle a))"
proof -
  from assms obtain gray where
    a: "a = measured.extend
          \<lparr> noise_level = assess_noise_level (measure L gray),
            contrast_quality = assess_contrast (measure L gray),
            brightness_level = assess_brightness (measure L gray),
            skew_angle = detect_skew (skew_in (measure L gray)),
            document_type = classify_document_type (measure L gray),
            blur_level = assess_blur (measure L gray),
            text_density = assess_text_density (measure L gray) \<rparr>
          \<lparr> quality_score = calculate_quality_score
              \<lparr> noise_level = assess_noise_level (measure L gray),
                contrast_quality = assess_contrast (measure L gray),
                brightness_level = assess_brightness (measure L gray),
                skew_angle = detect_skew (skew_in (measure L gray)),
                document_type = classify_document_type (measure L gray),
                blur_level = assess_blur (measure L gray),
                text_density = assess_text_density (measure L gray) \<rparr>,
            recommendations = generate_recommendations
              \<lparr> noise_level = assess_noise_level (measure L gray),
                contrast_quality = assess_contrast (measure L gray),
                brightness_level = assess_brightness (measure L gray),
                skew_angle = detect_skew (skew_in (measure L gray)),
                document_type = classify_document_type (measure L gray),
                blur_level = assess_blur (measure L gray),
                text_density = assess_text_density (measure L gray) \<rparr> \<rparr>"
    by (auto simp: analyze_document_quality_def and_then_def Let_def split: sum.splits)
  have 1: "recommendations a = generate_recommendations a"
    unfolding a by (simp add: generate_recommendations_def measured.defs)
  have 2: "quality_score a = calculate_quality_score a"
    unfolding a by (simp add: calculate_quality_score_def measured.defs)
  have 3: "skew_level (skew_angle a) = level_of_angle (angle (skew_angle a))"
    unfolding a by (simp add: measured.defs detect_skew_def Let_def)
  show ?thesis using 1 2 3 by (intro conjI)
qed

lemma dynamic_preprocess_image_report:
  assumes "dynamic_preprocess_image L image_bytes user_opts = Inr (out, rep)"
  shows "\<exists>pil_image a. image_open L image_bytes = Some pil_image
     \<and> analyze_document_quality L (normalize_mode L pil_image) = Inr a
     \<and> processing_applied rep = enabled_names (recommendations a)
     \<and> rep_skew_angle rep = angle (skew_angle a)
     \<and> rep_noise_level rep = noise_level a
     \<and> rep_contrast_level rep = contrast_quality a
     \<and> rep_brightness_level rep = brightness_level a
     \<and> rep_blur_level rep = blur_level a"
  using assms
  by (auto simp: dynamic_preprocess_image_def process_document_def and_then_def Let_def
      split: option.splits sum.splits prod.splits)


text \<open>
  Claim C2, as the code has it.  Whenever the entry point returns, \<^verbatim>\<open>processing_applied\<close>
  is the list of the operators the analysis recommends, in the order deskew, denoise,
  contrast, brightness, sharpen: it is a function of the levels in the report alone and
  does not depend on whether an operator raised.
\<close>

theorem processing_applied_lists_recommended:
  assumes "dynamic_preprocess_image L image_bytes user_opts = Inr (out, rep)"
  shows "processing_applied rep =
     (if level_of_angle (rep_skew_angle rep) = Medium \<or> level_of_angle (rep_skew_angle rep) = High
      then [''deskew''] else [])
     @ (if rep_noise_level rep = Medium \<or> rep_noise_level rep = High then [''denoise''] else [])
     @ (if rep_contrast_level rep = Low then [''contrast''] else [])
     @ (if rep_brightness_level rep = VeryDark \<or> rep_brightness_level rep = Dark
           \<or> rep_brightness_level rep = Overexposed then [''brightness''] else [])
     @ (if rep_blur_level rep = Blurry then [''sharpen''] else [])"
proof -
  from dynamic_preprocess_image_report [OF assms] obtain pil_image a where
    an: "analyze_document_quality L (normalize_mode L pil_image) = Inr a"
    and pa: "processing_applied rep = enabled_names (recommendations a)"
    and lv: "rep_skew_angle rep = angle (skew_angle a)" "rep_noise_level rep = noise_level a"
      "rep_contrast_level rep = contrast_quality a" "rep_brightness_level rep = brightness_level a"
      "rep_blur_level rep = blur_level a"
    by (elim exE conjE) (rule that; assumption)
  from analyze_document_quality_result [OF an] have
    rc: "recommendations a = generate_recommendations a"
    and sk: "skew_level (skew_angle a) = level_of_angle (angle (skew_angle a))"
    by simp_all
  show ?thesis
    unfolding pa rc generated_enabled_names lv sk ..
qed

text \<open>
  A noisy, tilted, dark page and a library whose non-local-means denoising raises.  In
  pass 1 the denoise operator runs after the rotation, its library call raises and the
  operator hands back the pair it was given; the output image was produced without any
  \<open>nlmeans\<close> call.  Yet the report lists \<^verbatim>\<open>denoise\<close> as applied, against claim C2.
\<close>

theorem processing_applied_counterexample:
  "nlmeans_colored (sim_lib [''nlmeans''] noisy_measurements) (Sim True [''rotate'']) 3 7 21 = None
   \<and> apply_denoise (sim_lib [''nlmeans''] noisy_measurements)
        (Sim True [''rotate'']) (Sim False [''rgb2gray'', ''rotate''])
        [(''enabled'', PBool True), (''strength'', PInt 3), (''priority'', PInt 2)]
      = (Sim True [''rotate''], Sim False [''rgb2gray'', ''rotate''])
   \<and> dynamic_preprocess_image (sim_lib [''nlmeans''] noisy_measurements) ''IMGabc'' None
      = Inr (''JPEGrotateenhance_contrastconvert_scale_absrgb2graygray2rgbenhance_contrastconvert_scale_abs'',
          \<lparr> rep_quality_score = 35, rep_document_type = SimpleText,
            rep_brightness_level = VeryDark, rep_contrast_level = Low,
            rep_noise_level = High, rep_skew_angle = 7, rep_blur_level = Sharp,
            processing_applied = [''deskew'', ''denoise'', ''contrast'', ''brightness''],
            original_size_kb = 3 / 512, processed_size_kb = 23 / 256,
            auto_preprocessing_options =
              [(''denoise'', PDict [(''strength'', PInt 7)]),
               (''contrast'', PInt 30), (''brightness'', PInt 40),
               (''grayscale'', PBool True)],
            final_preprocessing_options =
              [(''denoise'', PDict [(''strength'', PInt 7)]),
               (''contrast'', PInt 30), (''brightness'', PInt 40),
               (''grayscale'', PBool True)] \<rparr>)"
  by code_simp

text \<open>The theorem on that run.\<close>

theorem processing_applied_lists_recommended_witness:
  "\<exists>out rep.
     dynamic_preprocess_image (sim_lib [''nlmeans''] noisy_measurements) ''IMGabc'' None = Inr (out, rep)
     \<and> rep_noise_level rep = High \<and> rep_contrast_level rep = Low
     \<and> rep_brightness_level rep = VeryDark \<and> rep_blur_level rep = Sharp
     \<and> level_of_angle (rep_skew_angle rep) = High
     \<and> processing_applied rep = [''deskew'', ''denoise'', ''contrast'', ''brightness'']"
proof -
  let ?rep = "\<lparr> rep_quality_score = 35, rep_document_type = SimpleText,
         rep_brightness_level = VeryDark, rep_contrast_level = Low,
         rep_noise_level = High, rep_skew_angle = 7, rep_blur_level = Sharp,
         processing_applied = [''deskew'', ''denoise'', ''contrast'', ''brightness''],
         original_size_kb = 3 / 512, processed_size_kb = 23 / 256,
         auto_preprocessing_options =
           [(''denoise'', PDict [(''strength'', PInt 7)]),
            (''contrast'', PInt 30), (''brightness'', PInt 40),
            (''grayscale'', PBool True)],
         final_preprocessing_options =
           [(''denoise'', PDict [(''strength'', PInt 7)]),
            (''contrast'', PInt 30), (''brightness'', PInt 40),
            (''grayscale'', PBool True)] \<rparr>"
  have run: "dynamic_preprocess_image (sim_lib [''nlmeans''] noisy_measurements) ''IMGabc'' None
     = Inr (''JPEGrotateenhance_contrastconvert_scale_absrgb2graygray2rgbenhance_contrastconvert_scale_abs'',
            ?rep)"
    by code_simp
  have lvl: "level_of_angle (rep_skew_angle ?rep) = High"
    by (simp add: level_of_angle_def)
  have "processing_applied ?rep = [''deskew'', ''denoise'', ''contrast'', ''brightness'']"
    using processing_applied_lists_recommended [OF run] by (simp add: lvl)
  with run lvl show ?thesis
    by (intro exI [of _ "''JPEGrotateenhance_contrastconvert_scale_absrgb2graygray2rgbenhance_contrastconvert_scale_abs''"]
        exI [of _ ?rep]) simp
qed

subsection \<open>Fail-soft operators\<close>

lemma unguarded_total: "r \<noteq> None \<Longrightarrow> \<exists>y. unguarded r = Inr y"
  by (cases r) (simp_all add: unguarded_def)





















end
